theory Spec2Isabelle
  imports Complex_Main
begin

section \<open>Data model of the swarm agent\<close>

text \<open>
  The embedding follows \<^verbatim>\<open>controllers/simple_robot.py\<close> and
  \<^verbatim>\<open>simple_environment.py\<close>. Python floats are idealised as real numbers and
  Python integers are unbounded integers. Every random draw of the source is an explicit
  argument, so each function is a deterministic function of the agent, the shared queue,
  the elapsed time and the values drawn.
\<close>

datatype RobotState = RANDOM_WALK | COLLISION_AVOIDANCE | GET_OBSERVATION | SEND_SAMPLE | RESET

datatype FeedbackStrategy = NONE | POSITIVE | SOFT

text \<open>Exceptions the library calls of the source can raise.\<close>

datatype py_error = IndexError | ZeroDivisionError | ValueError | OverflowError | MemoryError

text \<open>
  A call either returns or raises; since the source mutates the agent in place, the state
  reached at the raise is kept with the exception.
\<close>

datatype 'a outcome = Returned 'a | Raised py_error 'a

fun final :: "'a outcome \<Rightarrow> 'a" where
  "final (Returned s) = s"
| "final (Raised e s) = s"

text \<open>
  \<^verbatim>\<open>SimpleEnvironment\<close>: the grid size and the boolean array \<^verbatim>\<open>grid\<close>, read
  at a pair of indices.
\<close>

record environment =
  grid_size :: int
  grid :: "int \<Rightarrow> int \<Rightarrow> bool"

text \<open>The dictionary \<^verbatim>\<open>last_measurement\<close> written by \<^verbatim>\<open>sendSample\<close>.\<close>

record measurement =
  m_robot_id :: "int option"
  m_x :: real
  m_y :: real
  sample_value :: int
  belief :: "real option"
  belief_conf :: "real option"

text \<open>
  The attributes of \<^verbatim>\<open>SimpleRobot\<close>. The read cursor \<^verbatim>\<open>last_msg_index\<close> starts
  at 0 and is only ever incremented, so it is a natural number. \<^verbatim>\<open>robot_id\<close> and
  \<^verbatim>\<open>env\<close> may be \<^verbatim>\<open>None\<close>.
\<close>

record robot =
  x :: real
  y :: real
  env :: "environment option"
  speed :: real
  direction :: real
  levy_scale :: real
  state :: RobotState
  timer :: real
  tau :: real
  random_walk_duration :: real
  random_walk_timer :: real
  last_observation :: "bool option"
  observations :: "bool list"
  alpha :: int
  beta :: int
  belief_threshold :: real
  p_c :: real
  decision_flag :: int
  min_swarm_count :: int
  sends :: int
  recvs :: int
  feedback_strategy :: FeedbackStrategy
  eta :: real
  us_exponent :: real
  robot_id :: "int option"
  last_msg_index :: nat
  last_measurement :: "measurement option"

text \<open>The shared message queue: a list of (sender id, message) pairs, appended at the end.\<close>

type_synonym message_queue = "(int option \<times> int) list"

text \<open>
  The values drawn during one call of \<^verbatim>\<open>update\<close>:
  \<^verbatim>\<open>np.random.standard_cauchy()\<close>, the successive results of
  \<^verbatim>\<open>random.uniform(0, 2 * np.pi)\<close> in \<^verbatim>\<open>turnRandomAngle\<close>,
  \<^verbatim>\<open>random.choice([True, False])\<close> and \<^verbatim>\<open>random.random()\<close>.
\<close>

record draws =
  standard_cauchy :: real
  uniform_angle :: "nat \<Rightarrow> real"
  choice :: bool
  random_u :: real

section \<open>Construction\<close>

text \<open>
  \<^verbatim>\<open>SimpleRobot.__init__(x, y, env, robot_id, message_queue)\<close>. The constructor takes
  no configuration value: interval, duration, strategy and threshold are the constants
  written below. The initial heading is the drawn angle.
\<close>

definition SimpleRobot_init ::
  "real \<Rightarrow> real \<Rightarrow> environment option \<Rightarrow> int option \<Rightarrow> real \<Rightarrow> robot" where
  "SimpleRobot_init px py e rid angle =
     \<lparr> x = px, y = py, env = e,
       speed = 5 / 100, direction = angle, levy_scale = 5 / 100,
       state = RANDOM_WALK, timer = 0, tau = 2 / 10,
       random_walk_duration = 5, random_walk_timer = 0,
       last_observation = None, observations = [],
       alpha = 1, beta = 1, belief_threshold = 1 / 2,
       p_c = 95 / 100, decision_flag = - 1, min_swarm_count = 100,
       sends = 0, recvs = 0,
       feedback_strategy = POSITIVE, eta = 1250, us_exponent = 2,
       robot_id = rid, last_msg_index = 0, last_measurement = None \<rparr>"

text \<open>
  What \<^verbatim>\<open>np.zeros((grid_size, grid_size), dtype=bool)\<close> and the list of the
  positions can hold is decided by the array library and the machine, which are not in
  the source. They are a parameter of the constructor: the largest number of cells that
  can be allocated, and the exception raised for a size that is refused.
\<close>

record platform =
  max_cells :: nat
  zeros_error :: "int \<Rightarrow> py_error"

text \<open>
  The allocation at line 13: a negative dimension is always refused, a dimension that is
  not negative is refused when the array has more cells than the platform holds. The
  result is the exception raised, if any.
\<close>

definition np_zeros :: "platform \<Rightarrow> int \<Rightarrow> py_error option" where
  "np_zeros pf g =
     (if g < 0 \<or> int (max_cells pf) < g * g then Some (zeros_error pf g) else None)"

text \<open>
  The product \<^verbatim>\<open>0.6 * num_squares\<close> at line 10 converts the integer to a float,
  which raises \<^verbatim>\<open>OverflowError\<close> when the integer rounds beyond the largest
  double.
\<close>

definition int_to_float_overflows :: "int \<Rightarrow> bool" where
  "int_to_float_overflows n = (2 ^ 1024 - 2 ^ 970 \<le> \<bar>n\<bar>)"

text \<open>
  \<^verbatim>\<open>SimpleEnvironment.__init__(grid_size)\<close>, lines 6-22. The constructor has no
  check of its own: it raises what its library calls raise, in the order of the lines.
  The cells set to True are those of the drawn sample \<^verbatim>\<open>vibrating_positions\<close>.
\<close>

definition SimpleEnvironment_init ::
  "platform \<Rightarrow> int \<Rightarrow> (int \<times> int) list \<Rightarrow> py_error + environment" where
  "SimpleEnvironment_init pf g vibrating_positions =
     (let num_squares = g * g
      in if int_to_float_overflows num_squares then Inl OverflowError
         else (case np_zeros pf g of
                 Some err \<Rightarrow> Inl err
               | None \<Rightarrow>
                   Inr \<lparr> grid_size = g,
                         grid = (\<lambda>i j. (i, j) \<in> set vibrating_positions) \<rparr>))"

section \<open>Belief engine\<close>

text \<open>
  Modelled from the spec: \<^verbatim>\<open>scipy.stats.beta.cdf\<close> is a library call, so the
  regularized incomplete Beta function is written out. For positive integer shape
  parameters it is the binomial tail sum; outside (0, 1) it is 0 or 1; for a shape
  parameter that is not positive the library returns NaN, which is \<open>None\<close> here.
\<close>

definition beta_cdf :: "real \<Rightarrow> int \<Rightarrow> int \<Rightarrow> real option" where
  "beta_cdf q a b =
     (if a < 1 \<or> b < 1 then None
      else if q \<le> 0 then Some 0
      else if 1 \<le> q then Some 1
      else Some (\<Sum>j = nat a..<nat a + nat b.
                   real ((nat a + nat b - 1) choose j) * q ^ j * (1 - q) ^ (nat a + nat b - 1 - j)))"

text \<open>
  \<^verbatim>\<open>recvSample\<close>, lines 190-196, and \<^verbatim>\<open>check_decision\<close>, lines 248-261. Every
  comparison with NaN is false, so a NaN belief takes the last branch.
\<close>

definition recvSample :: "robot \<Rightarrow> int \<Rightarrow> robot" where
  "recvSample r message =
     (let r1 = (if message = 1 then r\<lparr>alpha := alpha r + 1\<rparr> else r\<lparr>beta := beta r + 1\<rparr>)
      in r1\<lparr>recvs := recvs r1 + 1\<rparr>)"

definition check_decision :: "robot \<Rightarrow> robot" where
  "check_decision r =
     (if sends r + recvs r \<ge> min_swarm_count r then
        (case beta_cdf (1 / 2) (alpha r) (beta r) of
           None \<Rightarrow> r\<lparr>decision_flag := - 1\<rparr>
         | Some b \<Rightarrow>
             if b > p_c r then r\<lparr>decision_flag := 1\<rparr>
             else if b < 1 - p_c r then r\<lparr>decision_flag := 0\<rparr>
             else r\<lparr>decision_flag := - 1\<rparr>)
      else r)"


section \<open>Movement\<close>

text \<open>\<^verbatim>\<open>turnRandomAngle\<close>, lines 74-75, with the drawn angle as argument.\<close>

definition turnRandomAngle :: "robot \<Rightarrow> real \<Rightarrow> robot" where
  "turnRandomAngle r angle = r\<lparr>direction := angle\<rparr>"

text \<open>\<^verbatim>\<open>np.clip(v, lo, hi)\<close>.\<close>

definition clip :: "real \<Rightarrow> real \<Rightarrow> real \<Rightarrow> real" where
  "clip v lo hi = min (max v lo) hi"

text \<open>
  The \<^verbatim>\<open>while attempts < 8\<close> loop of \<^verbatim>\<open>performMovement\<close>, lines 90-104. It
  returns the agent (its heading changed by the retries), the number of headings drawn,
  and the accepted candidate position: \<open>Some\<close> when the loop leaves by \<^verbatim>\<open>break\<close>,
  \<open>None\<close> when it runs into its \<^verbatim>\<open>else\<close> clause.
\<close>

function heading_loop ::
  "robot \<Rightarrow> real \<Rightarrow> real \<Rightarrow> real \<Rightarrow> (nat \<Rightarrow> real) \<Rightarrow> nat \<Rightarrow> robot \<times> nat \<times> (real \<times> real) option" where
  "heading_loop r step_size dx dy angles attempts =
     (if attempts < 8 then
        (let next_x = x r + dx; next_y = y r + dy in
         if 0 \<le> next_x \<and> next_x \<le> 1 \<and> 0 \<le> next_y \<and> next_y \<le> 1
         then (r, attempts, Some (next_x, next_y))
         else (let r1 = turnRandomAngle r (angles attempts) in
               heading_loop r1 step_size (step_size * cos (direction r1))
                 (step_size * sin (direction r1)) angles (attempts + 1)))
      else (r, attempts, None))"
  by pat_completeness auto
termination
  by (relation "measure (\<lambda>(r, step_size, dx, dy, angles, attempts). 8 - attempts)") auto

declare heading_loop.simps [simp del]

text \<open>\<^verbatim>\<open>performMovement\<close>, lines 77-123.\<close>

definition performMovement :: "robot \<Rightarrow> real \<Rightarrow> draws \<Rightarrow> robot" where
  "performMovement r dt d =
     (let step_size = clip (\<bar>standard_cauchy d\<bar> * levy_scale r) (5 / 1000) (3 / 10);
          dx = step_size * cos (direction r);
          dy = step_size * sin (direction r)
      in case heading_loop r step_size dx dy (uniform_angle d) 0 of
           (r1, k, None) \<Rightarrow> turnRandomAngle r1 (uniform_angle d k)
         | (r1, k, Some (next_x, next_y)) \<Rightarrow>
             (let r2 = r1\<lparr>x := next_x, y := next_y\<rparr>;
                  r3 = r2\<lparr>timer := timer r2 + dt\<rparr>;
                  r4 = r3\<lparr>random_walk_timer := random_walk_timer r3 + dt\<rparr>
              in if timer r4 \<ge> tau r4 then r4\<lparr>state := GET_OBSERVATION, timer := 0\<rparr>
                 else if random_walk_timer r4 \<ge> random_walk_duration r4
                 then (turnRandomAngle r4 (uniform_angle d k))\<lparr>random_walk_timer := 0\<rparr>
                 else r4))"

section \<open>Observation and feedback\<close>

text \<open>Python's \<^verbatim>\<open>int(v)\<close> on a float truncates towards zero.\<close>

definition py_int :: "real \<Rightarrow> int" where
  "py_int v = (if 0 \<le> v then \<lfloor>v\<rfloor> else \<lceil>v\<rceil>)"

text \<open>
  Indexing one axis of length \<open>n\<close> of a numpy array: a negative index counts from the
  end, an index out of range raises \<^verbatim>\<open>IndexError\<close>.
\<close>

definition np_index :: "int \<Rightarrow> int \<Rightarrow> py_error + int" where
  "np_index n i =
     (if 0 \<le> i \<and> i < n then Inr i
      else if - n \<le> i \<and> i < 0 then Inr (n + i)
      else Inl IndexError)"

text \<open>\<^verbatim>\<open>getObservation\<close>, lines 125-131.\<close>

definition getObservation :: "robot \<Rightarrow> draws \<Rightarrow> py_error + bool" where
  "getObservation r d =
     (case env r of
        Some e \<Rightarrow>
          (let grid_x = min (py_int (x r * real_of_int (grid_size e))) (grid_size e - 1);
               grid_y = min (py_int (y r * real_of_int (grid_size e))) (grid_size e - 1)
           in case np_index (grid_size e) grid_x of
                Inl err \<Rightarrow> Inl err
              | Inr i \<Rightarrow>
                  (case np_index (grid_size e) grid_y of
                     Inl err \<Rightarrow> Inl err
                   | Inr j \<Rightarrow> Inr (grid e i j)))
      | None \<Rightarrow> Inr (choice d))"

text \<open>
  Python's \<^verbatim>\<open>a ** b\<close> on floats, for a base that is not negative: \<^verbatim>\<open>0.0 ** 0.0\<close>
  is 1, and zero to a negative power raises \<^verbatim>\<open>ZeroDivisionError\<close>.
\<close>

definition py_float_pow :: "real \<Rightarrow> real \<Rightarrow> py_error + real" where
  "py_float_pow a b =
     (if a = 0 then (if b = 0 then Inr 1 else if 0 < b then Inr 0 else Inl ZeroDivisionError)
      else Inr (a powr b))"

text \<open>
  \<^verbatim>\<open>calculateMessage\<close>, lines 133-155. The divisions of the SOFT branch raise
  \<^verbatim>\<open>ZeroDivisionError\<close> on a zero denominator.
\<close>

definition calculateMessage :: "robot \<Rightarrow> int \<Rightarrow> draws \<Rightarrow> py_error + int" where
  "calculateMessage r sample d =
     (if feedback_strategy r = NONE then Inr sample
      else if feedback_strategy r = POSITIVE then
        (if decision_flag r = - 1 then Inr sample
         else Inr (if decision_flag r = 0 then 1 else 0))
      else if feedback_strategy r = SOFT then
        (if (alpha r + beta r)\<^sup>2 * (alpha r + beta r + 1) = 0 then Inl ZeroDivisionError
         else
           (let variance = real_of_int (alpha r * beta r)
                             / real_of_int ((alpha r + beta r)\<^sup>2 * (alpha r + beta r + 1))
            in if alpha r + beta r = 0 then Inl ZeroDivisionError
               else
                 (let blf = real_of_int (alpha r) / real_of_int (alpha r + beta r)
                  in case py_float_pow \<bar>1 / 2 - blf\<bar> (us_exponent r) of
                       Inl err \<Rightarrow> Inl err
                     | Inr pw \<Rightarrow>
                         (let delta = exp (- (eta r) * variance) * pw;
                              p = delta * (1 - blf) + (1 - delta) * real_of_int sample
                          in Inr (if random_u d < p then 1 else 0)))))
      else Inr sample)"

section \<open>Broadcast, drain and the step function\<close>

text \<open>
  \<^verbatim>\<open>sendSample\<close>, lines 157-180. The queue is the list the agent was built with (the
  constructor replaces \<^verbatim>\<open>None\<close> by a fresh list), so the append always happens.
\<close>

definition sendSample :: "robot \<Rightarrow> int \<Rightarrow> message_queue \<Rightarrow> robot \<times> message_queue" where
  "sendSample r message q =
     (let r1 = (if message = 1 then r\<lparr>alpha := alpha r + 1\<rparr> else r\<lparr>beta := beta r + 1\<rparr>);
          r2 = r1\<lparr>sends := sends r1 + 1\<rparr>;
          conf = (case beta_cdf (1 / 2) (alpha r2) (beta r2) of
                    None \<Rightarrow> None
                  | Some b \<Rightarrow> Some (max b (1 - b)));
          r3 = r2\<lparr>last_measurement :=
                    Some \<lparr> m_robot_id = robot_id r2, m_x = x r2, m_y = y r2,
                           sample_value = message, belief = conf, belief_conf = conf \<rparr>\<rparr>
      in (r3, q @ [(robot_id r3, message)]))"

text \<open>\<^verbatim>\<open>get_last_measurement\<close>, lines 182-188: get and clear.\<close>

definition get_last_measurement :: "robot \<Rightarrow> measurement option \<times> robot" where
  "get_last_measurement r = (last_measurement r, r\<lparr>last_measurement := None\<rparr>)"

text \<open>The \<^verbatim>\<open>while\<close> loop at the head of \<^verbatim>\<open>update\<close>, lines 200-204.\<close>

function drain :: "robot \<Rightarrow> message_queue \<Rightarrow> robot" where
  "drain r q =
     (if last_msg_index r < length q then
        (case q ! last_msg_index r of
           (sender_id, msg) \<Rightarrow>
             (let r1 = (if sender_id \<noteq> robot_id r then recvSample r msg else r)
              in drain (r1\<lparr>last_msg_index := last_msg_index r1 + 1\<rparr>) q))
      else r)"
  by pat_completeness auto
termination
  by (relation "measure (\<lambda>(r, q). length q - last_msg_index r)")
    (auto simp: recvSample_def Let_def)

declare drain.simps [simp del]

text \<open>\<^verbatim>\<open>update\<close>, lines 198-246.\<close>

definition update :: "robot \<Rightarrow> message_queue \<Rightarrow> real \<Rightarrow> draws \<Rightarrow> (robot \<times> message_queue) outcome" where
  "update r q dt d =
     (let r1 = drain r q;
          r2 = check_decision r1;
          r3 = r2\<lparr>timer := timer r2 + dt\<rparr>
      in case state r3 of
           RANDOM_WALK \<Rightarrow>
             (let r4 = performMovement r3 dt d
              in Returned (if timer r4 \<ge> tau r4 then r4\<lparr>state := GET_OBSERVATION\<rparr> else r4, q))
         | COLLISION_AVOIDANCE \<Rightarrow>
             Returned ((turnRandomAngle r3 (uniform_angle d 0))\<lparr>state := RANDOM_WALK\<rparr>, q)
         | GET_OBSERVATION \<Rightarrow>
             (case getObservation r3 d of
                Inl err \<Rightarrow> Raised err (r3, q)
              | Inr ob \<Rightarrow>
                  Returned (r3\<lparr>last_observation := Some ob,
                               observations := observations r3 @ [ob],
                               state := SEND_SAMPLE\<rparr>, q))
         | SEND_SAMPLE \<Rightarrow>
             (let raw_message = (if last_observation r3 = Some True then 1 else 0)
              in case calculateMessage r3 raw_message d of
                   Inl err \<Rightarrow> Raised err (r3, q)
                 | Inr message \<Rightarrow>
                     (case sendSample r3 message q of
                        (r4, q1) \<Rightarrow>
                          (let r5 = check_decision r4
                           in Returned (r5\<lparr>state := RANDOM_WALK, timer := 0\<rparr>, q1))))
         | RESET \<Rightarrow> Returned (r3\<lparr>state := RANDOM_WALK, timer := 0\<rparr>, q))"

section \<open>Vocabulary of the properties\<close>

text \<open>
  The messages a drain folds: the entries from the cursor to the end of the queue whose
  sender is not the agent itself, in queue order.
\<close>

definition peer_messages :: "robot \<Rightarrow> message_queue \<Rightarrow> int list" where
  "peer_messages r q =
     map snd (filter (\<lambda>(sender_id, msg). sender_id \<noteq> robot_id r) (drop (last_msg_index r) q))"

text \<open>Folding a list of received messages into the belief, first message first.\<close>

definition fold_messages :: "int list \<Rightarrow> robot \<Rightarrow> robot" where
  "fold_messages ms r = fold (\<lambda>msg r1. recvSample r1 msg) ms r"

text \<open>
  A history of belief updates: each is a broadcast of the agent's own bit
  (\<^verbatim>\<open>sendSample\<close>) or the receipt of a peer's bit (\<^verbatim>\<open>recvSample\<close>).
\<close>

datatype fold_event = Broadcast int | Receipt int

fun apply_event :: "robot \<times> message_queue \<Rightarrow> fold_event \<Rightarrow> robot \<times> message_queue" where
  "apply_event (r, q) (Broadcast m) = sendSample r m q"
| "apply_event (r, q) (Receipt m) = (recvSample r m, q)"

fun event_bit :: "fold_event \<Rightarrow> int" where
  "event_bit (Broadcast m) = m"
| "event_bit (Receipt m) = m"

text \<open>
  The invariant of the belief parameters: the updates counted by the two counters are
  exactly those added to the prior alpha = 1, beta = 1.
\<close>

definition belief_invariant :: "robot \<Rightarrow> bool" where
  "belief_invariant r =
     ((alpha r - 1) + (beta r - 1) = sends r + recvs r \<and> 1 \<le> alpha r \<and> 1 \<le> beta r)"

text \<open>
  The candidate positions of one movement step: the step length of
  \<^verbatim>\<open>performMovement\<close>, the heading tried at attempt \<open>k\<close> (the current heading first,
  then the angles drawn), the candidate it gives, and the first attempt below 8 whose
  candidate lies in the unit square.
\<close>

definition in_arena :: "real \<times> real \<Rightarrow> bool" where
  "in_arena p = (0 \<le> fst p \<and> fst p \<le> 1 \<and> 0 \<le> snd p \<and> snd p \<le> 1)"

definition step_length :: "robot \<Rightarrow> draws \<Rightarrow> real" where
  "step_length r d = clip (\<bar>standard_cauchy d\<bar> * levy_scale r) (5 / 1000) (3 / 10)"

definition heading_at :: "robot \<Rightarrow> draws \<Rightarrow> nat \<Rightarrow> real" where
  "heading_at r d k = (if k = 0 then direction r else uniform_angle d (k - 1))"

definition candidate :: "robot \<Rightarrow> draws \<Rightarrow> nat \<Rightarrow> real \<times> real" where
  "candidate r d k =
     (x r + step_length r d * cos (heading_at r d k),
      y r + step_length r d * sin (heading_at r d k))"

definition first_valid_attempt :: "robot \<Rightarrow> draws \<Rightarrow> nat option" where
  "first_valid_attempt r d = find (\<lambda>k. in_arena (candidate r d k)) [0..<8]"

text \<open>
  Sample inputs for the concrete instances: an agent as constructed, a platform, and one
  set of draws.
\<close>

definition demo_robot :: robot where
  "demo_robot = SimpleRobot_init (1 / 2) (1 / 4) None (Some 0) 0"

definition demo_platform :: platform where
  "demo_platform = \<lparr> max_cells = 1000000, zeros_error = (\<lambda>g. ValueError) \<rparr>"

definition demo_draws :: draws where
  "demo_draws = \<lparr> standard_cauchy = 1, uniform_angle = (\<lambda>k. 0), choice = True, random_u = 0 \<rparr>"

section \<open>Frame lemmas\<close>

lemma recvSample_as_update:
  "recvSample r m =
     r\<lparr>alpha := alpha r + (if m = 1 then 1 else 0),
       beta := beta r + (if m = 1 then 0 else 1),
       recvs := recvs r + 1\<rparr>"
  by (simp add: recvSample_def Let_def)

lemma fold_messages_Nil [simp]: "fold_messages [] r = r"
  by (simp add: fold_messages_def)

lemma fold_messages_Cons [simp]: "fold_messages (m # ms) r = fold_messages ms (recvSample r m)"
  by (simp add: fold_messages_def)

lemma fold_messages_as_update:
  "fold_messages ms r =
     r\<lparr>alpha := alpha r + int (length (filter (\<lambda>m. m = 1) ms)),
       beta := beta r + int (length (filter (\<lambda>m. m \<noteq> 1) ms)),
       recvs := recvs r + int (length ms)\<rparr>"
proof (induction ms arbitrary: r)
  case Nil
  show ?case by simp
next
  case (Cons m ms)
  show ?case
    by (simp add: Cons.IH recvSample_as_update)
qed

lemma fold_messages_cursor:
  "fold_messages ms (r\<lparr>last_msg_index := k\<rparr>) = (fold_messages ms r)\<lparr>last_msg_index := k\<rparr>"
  by (simp add: fold_messages_as_update)

text \<open>
  The drain loop folds exactly the peer messages between the cursor and the end of the
  queue, in order, and leaves the cursor at the length of the queue (or where it was, had
  it been beyond).
\<close>

lemma drain_as_fold:
  "drain r q =
     (fold_messages (peer_messages r q) r)\<lparr>last_msg_index := max (last_msg_index r) (length q)\<rparr>"
proof (induction r q rule: drain.induct)
  case (1 r q)
  show ?case
  proof (cases "last_msg_index r < length q")
    case False
    then show ?thesis
      by (subst drain.simps) (simp add: peer_messages_def max_def)
  next
    case True
    obtain s m where sm: "q ! last_msg_index r = (s, m)"
      by (cases "q ! last_msg_index r") auto
    define r1 where "r1 = (if s \<noteq> robot_id r then recvSample r m else r)"
    define r2 where "r2 = r1\<lparr>last_msg_index := last_msg_index r1 + 1\<rparr>"
    have idx: "last_msg_index r1 = last_msg_index r" and rid: "robot_id r1 = robot_id r"
      by (simp_all add: r1_def recvSample_as_update)
    have step: "drain r q = drain r2 q"
      using True sm by (subst drain.simps) (simp add: r1_def r2_def Let_def)
    have ih: "drain r2 q =
        (fold_messages (peer_messages r2 q) r2)\<lparr>last_msg_index := max (last_msg_index r2) (length q)\<rparr>"
      using "1.IH" [OF True sm [symmetric] r1_def]
      by (simp add: r2_def)
    have dr: "drop (last_msg_index r) q = (s, m) # drop (Suc (last_msg_index r)) q"
      using True sm by (simp add: Cons_nth_drop_Suc [symmetric])
    have pm: "peer_messages r q = (if s \<noteq> robot_id r then [m] else []) @ peer_messages r2 q"
      by (simp add: peer_messages_def dr r2_def idx rid)
    have f1: "fold_messages (peer_messages r q) r = fold_messages (peer_messages r2 q) r1"
      by (simp add: pm r1_def)
    have f2: "fold_messages (peer_messages r2 q) r2
        = (fold_messages (peer_messages r2 q) r1)\<lparr>last_msg_index := last_msg_index r1 + 1\<rparr>"
      by (simp add: r2_def fold_messages_cursor)
    have mx: "max (last_msg_index r2) (length q) = max (last_msg_index r) (length q)"
      using True by (simp add: r2_def idx max_def)
    show ?thesis
      by (simp only: step ih f2 f1 mx) simp
  qed
qed

lemma drain_as_update:
  "drain r q =
     r\<lparr>alpha := alpha r + int (length (filter (\<lambda>m. m = 1) (peer_messages r q))),
       beta := beta r + int (length (filter (\<lambda>m. m \<noteq> 1) (peer_messages r q))),
       recvs := recvs r + int (length (peer_messages r q)),
       last_msg_index := max (last_msg_index r) (length q)\<rparr>"
  by (simp add: drain_as_fold fold_messages_as_update)

lemma check_decision_as_update:
  "check_decision r = r\<lparr>decision_flag := decision_flag (check_decision r)\<rparr>"
  by (simp add: check_decision_def split: option.split)

lemma sendSample_as_update:
  "fst (sendSample r m q) =
     r\<lparr>alpha := alpha r + (if m = 1 then 1 else 0),
       beta := beta r + (if m = 1 then 0 else 1),
       sends := sends r + 1,
       last_measurement := last_measurement (fst (sendSample r m q))\<rparr>"
  by (simp add: sendSample_def Let_def)

lemma sendSample_queue: "snd (sendSample r m q) = q @ [(robot_id r, m)]"
  by (simp add: sendSample_def Let_def)

lemma drain_frame:
  "x (drain r q) = x r" "y (drain r q) = y r" "state (drain r q) = state r"
  "timer (drain r q) = timer r" "direction (drain r q) = direction r"
  "levy_scale (drain r q) = levy_scale r" "robot_id (drain r q) = robot_id r"
  "feedback_strategy (drain r q) = feedback_strategy r" "tau (drain r q) = tau r"
  "sends (drain r q) = sends r" "last_observation (drain r q) = last_observation r"
  by (subst drain_as_update, simp)+

lemma check_decision_frame:
  "x (check_decision r) = x r" "y (check_decision r) = y r"
  "state (check_decision r) = state r" "timer (check_decision r) = timer r"
  "direction (check_decision r) = direction r" "levy_scale (check_decision r) = levy_scale r"
  "robot_id (check_decision r) = robot_id r"
  "feedback_strategy (check_decision r) = feedback_strategy r" "tau (check_decision r) = tau r"
  "alpha (check_decision r) = alpha r" "beta (check_decision r) = beta r"
  "sends (check_decision r) = sends r" "recvs (check_decision r) = recvs r"
  "last_msg_index (check_decision r) = last_msg_index r"
  "last_observation (check_decision r) = last_observation r"
  "min_swarm_count (check_decision r) = min_swarm_count r" "p_c (check_decision r) = p_c r"
  by (subst check_decision_as_update, simp)+

lemma sendSample_frame:
  "x (fst (sendSample r m q)) = x r" "y (fst (sendSample r m q)) = y r"
  "recvs (fst (sendSample r m q)) = recvs r"
  "last_msg_index (fst (sendSample r m q)) = last_msg_index r"
  by (subst sendSample_as_update, simp)+

section \<open>The movement loop\<close>

lemma heading_loop_result:
  assumes "heading_loop r s dx dy angles n = (r1, k, res)"
    and "dx = s * cos (direction r)" and "dy = s * sin (direction r)" and "n \<le> 8"
  shows "r1 = r\<lparr>direction := direction r1\<rparr> \<and> n \<le> k \<and> k \<le> 8 \<and>
         direction r1 = (if k = n then direction r else angles (k - 1)) \<and>
         (\<forall>j. n \<le> j \<and> j < k \<longrightarrow>
            \<not> in_arena (x r + s * cos (if j = n then direction r else angles (j - 1)),
                         y r + s * sin (if j = n then direction r else angles (j - 1)))) \<and>
         (case res of
            None \<Rightarrow> k = 8
          | Some p \<Rightarrow> k < 8 \<and> in_arena p \<and>
              p = (x r + s * cos (direction r1), y r + s * sin (direction r1)))"
  using assms
proof (induction r s dx dy angles n arbitrary: r1 k res rule: heading_loop.induct)
  case (1 r s dx dy angles n)
  show ?case
  proof (cases "n < 8")
    case False
    then have "heading_loop r s dx dy angles n = (r, n, None)"
      by (subst heading_loop.simps) simp
    with "1.prems" False show ?thesis
      by auto
  next
    case True
    show ?thesis
    proof (cases "in_arena (x r + dx, y r + dy)")
      case inside: True
      with True have "heading_loop r s dx dy angles n = (r, n, Some (x r + dx, y r + dy))"
        by (subst heading_loop.simps) (simp add: Let_def in_arena_def)
      with "1.prems" True inside show ?thesis
        by auto
    next
      case outside: False
      define r' where "r' = turnRandomAngle r (angles n)"
      have "heading_loop r s dx dy angles n =
          heading_loop r' s (s * cos (direction r')) (s * sin (direction r')) angles (n + 1)"
        using True outside
        by (subst heading_loop.simps) (auto simp: Let_def in_arena_def r'_def)
      with "1.prems"(1)
      have rec: "heading_loop r' s (s * cos (direction r')) (s * sin (direction r')) angles (n + 1)
                  = (r1, k, res)"
        by simp
      have ih: "r1 = r'\<lparr>direction := direction r1\<rparr> \<and> n + 1 \<le> k \<and> k \<le> 8 \<and>
         direction r1 = (if k = n + 1 then direction r' else angles (k - 1)) \<and>
         (\<forall>j. n + 1 \<le> j \<and> j < k \<longrightarrow>
            \<not> in_arena (x r' + s * cos (if j = n + 1 then direction r' else angles (j - 1)),
                         y r' + s * sin (if j = n + 1 then direction r' else angles (j - 1)))) \<and>
         (case res of
            None \<Rightarrow> k = 8
          | Some p \<Rightarrow> k < 8 \<and> in_arena p \<and>
              p = (x r' + s * cos (direction r1), y r' + s * sin (direction r1)))"
      proof -
        have cond: "\<not> (0 \<le> x r + dx \<and> x r + dx \<le> 1 \<and> 0 \<le> y r + dy \<and> y r + dy \<le> 1)"
          using outside by (simp add: in_arena_def)
        have le: "n + 1 \<le> 8"
          using True by simp
        show ?thesis
          by (rule "1.IH" [OF True refl refl cond r'_def rec refl refl le])
      qed
      have r'x: "x r' = x r" "y r' = y r" "direction r' = angles n"
        by (simp_all add: r'_def turnRandomAngle_def)
      have upd: "r'\<lparr>direction := th\<rparr> = r\<lparr>direction := th\<rparr>" for th
        by (simp add: r'_def turnRandomAngle_def)
      have out0: "\<not> in_arena (x r + s * cos (direction r), y r + s * sin (direction r))"
        using outside "1.prems"(2,3) by simp
      have noarena: "\<not> in_arena (x r + s * cos (if j = n then direction r else angles (j - 1)),
                         y r + s * sin (if j = n then direction r else angles (j - 1)))"
        if "n \<le> j" "j < k" for j
      proof (cases "j = n")
        case True
        then show ?thesis using out0 by simp
      next
        case False
        with that have "n + 1 \<le> j \<and> j < k" by simp
        with ih have "\<not> in_arena (x r' + s * cos (if j = n + 1 then direction r' else angles (j - 1)),
                         y r' + s * sin (if j = n + 1 then direction r' else angles (j - 1)))"
          by blast
        moreover have "(if j = n + 1 then direction r' else angles (j - 1)) = angles (j - 1)"
          by (simp add: r'x)
        ultimately show ?thesis using False by (simp add: r'x)
      qed
      have dir: "direction r1 = (if k = n then direction r else angles (k - 1))"
        using ih by (auto simp: r'x)
      show ?thesis
        using ih noarena dir by (simp add: upd r'x split: option.splits)
    qed
  qed
qed


lemma heading_loop_first_valid:
  assumes "heading_loop r (step_length r d) (step_length r d * cos (direction r))
             (step_length r d * sin (direction r)) (uniform_angle d) 0 = (r1, k, res)"
  shows "r1 = r\<lparr>direction := direction r1\<rparr>"
    and "res = map_option (candidate r d) (first_valid_attempt r d)"
proof -
  have le: "(0::nat) \<le> 8" by simp
  note res = heading_loop_result [OF assms refl refl le]
  show "r1 = r\<lparr>direction := direction r1\<rparr>"
    by (rule res [THEN conjunct1])
  have dir: "direction r1 = heading_at r d k"
    using res by (simp add: heading_at_def)
  have "\<forall>j. 0 \<le> j \<and> j < k \<longrightarrow> \<not> in_arena (candidate r d j)"
    using res unfolding candidate_def heading_at_def by blast
  then have out: "\<not> in_arena (candidate r d j)" if "j < k" for j
    using that by simp
  have cs: "case res of None \<Rightarrow> k = 8
            | Some p \<Rightarrow> k < 8 \<and> in_arena p \<and> p = candidate r d k"
    using res dir unfolding candidate_def heading_at_def
    by (cases res) (auto split: if_splits)
  show "res = map_option (candidate r d) (first_valid_attempt r d)"
  proof (cases res)
    case None
    with cs have "k = 8" by simp
    with out have "first_valid_attempt r d = None"
      by (simp add: first_valid_attempt_def find_None_iff)
    with None show ?thesis by simp
  next
    case (Some p)
    with cs have k: "k < 8" and p: "in_arena p" and pc: "p = candidate r d k"
      by auto
    have "first_valid_attempt r d = Some k"
      unfolding first_valid_attempt_def find_Some_iff
      using k p pc out by (intro exI [of _ k]) simp
    with Some pc show ?thesis by simp
  qed
qed

lemma first_valid_attempt_in_arena:
  "first_valid_attempt r d = Some k \<Longrightarrow> in_arena (candidate r d k) \<and> k < 8"
  by (auto simp: first_valid_attempt_def find_Some_iff)

lemma performMovement_cases:
  "performMovement r dt d =
     (case first_valid_attempt r d of
        None \<Rightarrow> r\<lparr>direction := direction (performMovement r dt d)\<rparr>
      | Some k \<Rightarrow>
          r\<lparr>x := fst (candidate r d k), y := snd (candidate r d k),
            direction := direction (performMovement r dt d),
            timer := (if timer r + dt \<ge> tau r then 0 else timer r + dt),
            random_walk_timer :=
              (if timer r + dt \<ge> tau r then random_walk_timer r + dt
               else if random_walk_timer r + dt \<ge> random_walk_duration r then 0
               else random_walk_timer r + dt),
            state := (if timer r + dt \<ge> tau r then GET_OBSERVATION else state r)\<rparr>)"
proof -
  obtain r1 k res where hl: "heading_loop r (step_length r d) (step_length r d * cos (direction r))
             (step_length r d * sin (direction r)) (uniform_angle d) 0 = (r1, k, res)"
    using prod_cases3 by blast
  note fv = heading_loop_first_valid [OF hl]
  define th where "th = direction r1"
  have r1: "r1 = r\<lparr>direction := th\<rparr>"
    using fv(1) by (simp add: th_def)
  show ?thesis
  proof (cases "first_valid_attempt r d")
    case None
    with fv(2) have "res = None" by simp
    with hl have "performMovement r dt d = r\<lparr>direction := uniform_angle d k\<rparr>"
      by (simp add: performMovement_def step_length_def Let_def turnRandomAngle_def r1)
    with None show ?thesis
      by simp
  next
    case (Some j)
    obtain cx cy where c: "candidate r d j = (cx, cy)"
      by (cases "candidate r d j")
    with Some fv(2) have res: "res = Some (cx, cy)" by simp
    have expl: "performMovement r dt d =
      (if tau r \<le> timer r + dt
       then r\<lparr>direction := th, x := cx, y := cy, timer := 0,
              random_walk_timer := random_walk_timer r + dt, state := GET_OBSERVATION\<rparr>
       else if random_walk_duration r \<le> random_walk_timer r + dt
       then r\<lparr>direction := uniform_angle d k, x := cx, y := cy, timer := timer r + dt,
              random_walk_timer := 0\<rparr>
       else r\<lparr>direction := th, x := cx, y := cy, timer := timer r + dt,
              random_walk_timer := random_walk_timer r + dt\<rparr>)"
      using hl res
      by (simp add: performMovement_def step_length_def Let_def turnRandomAngle_def r1)
    show ?thesis
      using Some c by (simp add: expl)
  qed
qed

lemma performMovement_frame:
  "alpha (performMovement r dt d) = alpha r" "beta (performMovement r dt d) = beta r"
  "sends (performMovement r dt d) = sends r" "recvs (performMovement r dt d) = recvs r"
  "last_msg_index (performMovement r dt d) = last_msg_index r"
  "decision_flag (performMovement r dt d) = decision_flag r"
  "robot_id (performMovement r dt d) = robot_id r"
  "tau (performMovement r dt d) = tau r"
  by (subst performMovement_cases, simp split: option.split)+

lemma performMovement_position:
  "(x (performMovement r dt d), y (performMovement r dt d)) =
     (case first_valid_attempt r d of None \<Rightarrow> (x r, y r) | Some k \<Rightarrow> candidate r d k)"
  by (subst (1 2) performMovement_cases) (simp split: option.split)

lemma performMovement_timer:
  "timer (performMovement r dt d) =
     (case first_valid_attempt r d of
        None \<Rightarrow> timer r
      | Some k \<Rightarrow> if timer r + dt \<ge> tau r then 0 else timer r + dt)"
  by (subst performMovement_cases) (simp split: option.split)

lemma performMovement_state:
  "state (performMovement r dt d) =
     (case first_valid_attempt r d of
        None \<Rightarrow> state r
      | Some k \<Rightarrow> if timer r + dt \<ge> tau r then GET_OBSERVATION else state r)"
  by (subst performMovement_cases) (simp split: option.split)

lemma candidate_cong:
  assumes "x r' = x r" "y r' = y r" "direction r' = direction r" "levy_scale r' = levy_scale r"
  shows "candidate r' d k = candidate r d k"
  using assms by (simp add: candidate_def step_length_def heading_at_def)

lemma first_valid_attempt_cong:
  assumes "x r' = x r" "y r' = y r" "direction r' = direction r" "levy_scale r' = levy_scale r"
  shows "first_valid_attempt r' d = first_valid_attempt r d"
  using assms by (simp add: first_valid_attempt_def candidate_cong [OF assms])

lemma pre_dispatch_candidate:
  "candidate (check_decision (drain r q)\<lparr>timer := t\<rparr>) d k = candidate r d k"
  "first_valid_attempt (check_decision (drain r q)\<lparr>timer := t\<rparr>) d = first_valid_attempt r d"
  by (rule candidate_cong first_valid_attempt_cong; simp add: drain_frame check_decision_frame)+

lemma update_position:
  "(x (fst (final (update r q dt d))), y (fst (final (update r q dt d)))) =
     (if state r = RANDOM_WALK
      then (case first_valid_attempt r d of None \<Rightarrow> (x r, y r) | Some k \<Rightarrow> candidate r d k)
      else (x r, y r))"
proof (cases "state r")
  case RANDOM_WALK
  then show ?thesis
    using performMovement_position [of "check_decision (drain r q)\<lparr>timer := timer r + dt\<rparr>" dt d]
    by (simp add: update_def Let_def drain_frame check_decision_frame pre_dispatch_candidate
        split: option.split)
qed (simp_all add: update_def Let_def drain_frame check_decision_frame sendSample_frame
      turnRandomAngle_def case_prod_beta split: sum.split)

lemma first_valid_attempt_0:
  "in_arena (candidate r d 0) \<Longrightarrow> first_valid_attempt r d = Some 0"
  by (simp add: first_valid_attempt_def upt_conv_Cons)

lemma in_arena_demo: "in_arena (candidate demo_robot demo_draws 0)"
  by (simp add: in_arena_def candidate_def step_length_def heading_at_def clip_def
      demo_robot_def demo_draws_def SimpleRobot_init_def)

lemma cand_demo: "candidate demo_robot demo_draws 0 = (55 / 100, 1 / 4)"
  by (simp add: in_arena_def candidate_def step_length_def heading_at_def clip_def
      demo_robot_def demo_draws_def SimpleRobot_init_def)

lemma update_timer_random_walk:
  assumes "state r = RANDOM_WALK"
  shows "timer (fst (final (update r q dt d))) =
     (case first_valid_attempt r d of
        None \<Rightarrow> timer r + dt
      | Some k \<Rightarrow> if timer r + dt + dt \<ge> tau r then 0 else timer r + dt + dt)"
  using assms
  by (simp add: update_def Let_def drain_frame check_decision_frame performMovement_timer
      performMovement_frame pre_dispatch_candidate split: option.split)

lemma update_state_random_walk:
  assumes "state r = RANDOM_WALK"
  shows "state (fst (final (update r q dt d))) =
     (case first_valid_attempt r d of
        None \<Rightarrow> if timer r + dt \<ge> tau r then GET_OBSERVATION else RANDOM_WALK
      | Some k \<Rightarrow> if timer r + dt + dt \<ge> tau r then GET_OBSERVATION else RANDOM_WALK)"
  using assms
  by (simp add: update_def Let_def drain_frame check_decision_frame performMovement_timer
      performMovement_state performMovement_frame pre_dispatch_candidate split: option.split)

section \<open>The step function\<close>

lemma update_cursor:
  "last_msg_index (fst (final (update r q dt d))) = max (last_msg_index r) (length q)"
  by (cases "state r")
    (simp_all add: update_def Let_def check_decision_frame sendSample_frame performMovement_frame
      turnRandomAngle_def case_prod_beta drain_as_update split: sum.split)

lemma update_recvs:
  "recvs (fst (final (update r q dt d))) = recvs r + int (length (peer_messages r q))"
  by (cases "state r")
    (simp_all add: update_def Let_def check_decision_frame sendSample_frame performMovement_frame
      turnRandomAngle_def case_prod_beta drain_as_update split: sum.split)

lemma update_belief_no_broadcast:
  assumes "state r \<noteq> SEND_SAMPLE"
  shows "alpha (fst (final (update r q dt d))) = alpha (drain r q)"
    and "beta (fst (final (update r q dt d))) = beta (drain r q)"
  using assms
  by (cases "state r";
      simp add: update_def Let_def check_decision_frame performMovement_frame
        turnRandomAngle_def drain_frame split: sum.split)+

lemma update_queue_grows:
  "take (length q) (snd (final (update r q dt d))) = q"
  by (cases "state r")
    (simp_all add: update_def Let_def sendSample_queue case_prod_beta drain_frame
      check_decision_frame split: sum.split)

lemma peer_messages_append:
  assumes "last_msg_index r \<le> length q"
  shows "peer_messages r (q @ q2) = peer_messages r q @ peer_messages (drain r q) (q @ q2)"
  using assms by (simp add: peer_messages_def drain_frame drain_as_update max_def)

section \<open>The Beta distribution at one half\<close>





section \<open>Histories of belief updates\<close>

lemma apply_event_fields:
  "alpha (fst (apply_event (r, q) ev)) = alpha r + (if event_bit ev = 1 then 1 else 0)"
  "beta (fst (apply_event (r, q) ev)) = beta r + (if event_bit ev = 1 then 0 else 1)"
  "sends (fst (apply_event (r, q) ev)) + recvs (fst (apply_event (r, q) ev)) = sends r + recvs r + 1"
  by (cases ev; simp add: recvSample_as_update sendSample_def Let_def)+

lemma foldl_apply_event_fields:
  "alpha (fst (foldl apply_event (r, q) es)) =
     alpha r + int (length (filter (\<lambda>ev. event_bit ev = 1) es)) \<and>
   beta (fst (foldl apply_event (r, q) es)) =
     beta r + int (length (filter (\<lambda>ev. event_bit ev \<noteq> 1) es)) \<and>
   sends (fst (foldl apply_event (r, q) es)) + recvs (fst (foldl apply_event (r, q) es)) =
     sends r + recvs r + int (length es)"
proof (induction es arbitrary: r q)
  case Nil
  show ?case by simp
next
  case (Cons ev es)
  obtain r1 q1 where st: "apply_event (r, q) ev = (r1, q1)"
    by (cases "apply_event (r, q) ev")
  have f: "alpha r1 = alpha r + (if event_bit ev = 1 then 1 else 0)"
    "beta r1 = beta r + (if event_bit ev = 1 then 0 else 1)"
    "sends r1 + recvs r1 = sends r + recvs r + 1"
    using apply_event_fields [of r q ev] by (simp_all add: st)
  show ?case
    using Cons.IH [of r1 q1] by (simp add: st f)
qed

lemma sendSample_belief:
  "alpha (fst (sendSample r m q)) = alpha r + (if m = 1 then 1 else 0)"
  "beta (fst (sendSample r m q)) = beta r + (if m = 1 then 0 else 1)"
  "sends (fst (sendSample r m q)) = sends r + 1"
  by (subst sendSample_as_update, simp)+

lemma filter_split_length:
  fixes ms :: "int list"
  shows "int (length (filter (\<lambda>m. m = 1) ms)) + int (length (filter (\<lambda>m. m \<noteq> 1) ms))
           = int (length ms)"
  using sum_length_filter_compl [of "\<lambda>m. m = 1" ms] by linarith

lemma update_belief_invariant:
  assumes "belief_invariant r"
  shows "belief_invariant (fst (final (update r q dt d)))"
  using assms filter_split_length [of "peer_messages r q"]
  by (cases "state r")
    (simp_all add: belief_invariant_def update_def Let_def check_decision_frame sendSample_frame
      sendSample_belief performMovement_frame turnRandomAngle_def case_prod_beta drain_as_update
      split: sum.split)

section \<open>Claims\<close>

lemma update_decision_flag_no_broadcast:
  assumes "state r \<noteq> SEND_SAMPLE"
  shows "decision_flag (fst (final (update r q dt d))) = decision_flag (check_decision (drain r q))"
  using assms
  by (cases "state r";
      simp add: update_def Let_def check_decision_frame performMovement_frame
        turnRandomAngle_def drain_frame split: sum.split)

lemma drain_empty_queue: "drain r [] = r"
  by (simp add: drain_as_update peer_messages_def)

text \<open>
  Claim C1. Under the POSITIVE feedback policy \<^verbatim>\<open>calculateMessage\<close> returns the raw
  bit while the decision flag is -1 (undecided), returns 1 for every raw bit once the
  flag is 0 (the decision taken when the belief value is below 1 - p_c), and returns 0
  for every raw bit once the flag is 1 (the opposite decision). In a broadcast step the
  entry appended to the queue carries exactly that bit, computed from the flag held after
  the drain and the re-check of the decision.
\<close>

theorem positive_feedback_forces_decided_bit:
  assumes "feedback_strategy r = POSITIVE"
  shows "(decision_flag r = - 1 \<longrightarrow> calculateMessage r sample d = Inr sample) \<and>
         (decision_flag r = 0 \<longrightarrow> calculateMessage r sample d = Inr 1) \<and>
         (decision_flag r = 1 \<longrightarrow> calculateMessage r sample d = Inr 0) \<and>
         (state r = SEND_SAMPLE \<longrightarrow>
            snd (final (update r q dt d)) =
              q @ [(robot_id r,
                    if decision_flag (check_decision (drain r q)) = - 1
                    then (if last_observation r = Some True then 1 else 0)
                    else if decision_flag (check_decision (drain r q)) = 0 then 1 else 0)])"
  using assms
  by (simp add: calculateMessage_def update_def Let_def drain_frame check_decision_frame
      sendSample_queue case_prod_beta)

theorem positive_feedback_forces_decided_bit_witness:
  "feedback_strategy (demo_robot\<lparr>decision_flag := 0, state := SEND_SAMPLE,
       last_observation := Some False\<rparr>) = POSITIVE \<and>
   calculateMessage (demo_robot\<lparr>decision_flag := 0, state := SEND_SAMPLE,
       last_observation := Some False\<rparr>) 0 demo_draws = Inr 1 \<and>
   snd (final (update (demo_robot\<lparr>decision_flag := 0, state := SEND_SAMPLE,
       last_observation := Some False\<rparr>) [] (1 / 10) demo_draws)) = [(Some 0, 1)]"
  using positive_feedback_forces_decided_bit
    [of "demo_robot\<lparr>decision_flag := 0, state := SEND_SAMPLE, last_observation := Some False\<rparr>"
        0 demo_draws "[]" "1 / 10"]
  by (simp add: demo_robot_def SimpleRobot_init_def drain_empty_queue check_decision_def)

text \<open>
  Claim C2. From the prior alpha = 1, beta = 1 with minimum sample count 4 and
  p_c = 0.95, folding the received bits 1, 1, 1, 1 gives alpha = 5 and beta = 1; the
  belief value is 0.5^5 = 0.03125, below 1 - p_c = 0.05; the flag, -1 before, is set by
  \<^verbatim>\<open>check_decision\<close> to 0, the decision of the below-(1 - p_c) branch, so it is no
  longer undecided. The same holds when the four bits arrive through the queue from peers
  and the step function drains them.
\<close>

theorem scenario_four_ones_decides:
  "(let r = fold_messages [1, 1, 1, 1] ((SimpleRobot_init px py e rid a)\<lparr>min_swarm_count := 4\<rparr>)
    in alpha r = 5 \<and> beta r = 1 \<and> sends r + recvs r \<ge> min_swarm_count r \<and>
       beta_cdf (1 / 2) (alpha r) (beta r) = Some ((1 / 2) ^ 5) \<and>
       (1 / 2 :: real) ^ 5 = 3125 / 100000 \<and>
       1 - p_c r = 5 / 100 \<and>
       (1 / 2 :: real) ^ 5 < 1 - p_c r \<and>
       decision_flag r = - 1 \<and>
       decision_flag (check_decision r) = 0) \<and>
   decision_flag (fst (final (update ((SimpleRobot_init px py e (Some 0) a)\<lparr>min_swarm_count := 4\<rparr>)
      [(Some 1, 1), (Some 2, 1), (Some 1, 1), (Some 2, 1)] dt d))) = 0"
proof -
  have st: "state ((SimpleRobot_init px py e (Some 0) a)\<lparr>min_swarm_count := 4\<rparr>) \<noteq> SEND_SAMPLE"
    by (simp add: SimpleRobot_init_def)
  show ?thesis
    by (simp add: update_decision_flag_no_broadcast [OF st])
      (simp add: Let_def SimpleRobot_init_def recvSample_as_update check_decision_def beta_cdf_def
        drain_as_update peer_messages_def
        sum.atLeast_Suc_lessThan eval_nat_numeral binomial_Suc_Suc)
qed

text \<open>
  Claim C3. Decisions are revocable: whenever sends + recvs has reached the minimum
  sample count and the belief value lies strictly between 1 - p_c and p_c,
  \<^verbatim>\<open>check_decision\<close> sets the flag to -1, whatever decision was held before.
\<close>

theorem decision_revocable:
  assumes "sends r + recvs r \<ge> min_swarm_count r"
    and "beta_cdf (1 / 2) (alpha r) (beta r) = Some b"
    and "1 - p_c r < b" and "b < p_c r"
  shows "decision_flag (check_decision r) = - 1"
  using assms by (simp add: check_decision_def)

text \<open>
  The instance: five received zeros push the belief value to 63/64, past p_c = 0.95, and
  the flag becomes 1; one received 1 brings the value back to 15/16, inside the band, and
  the flag returns to -1.
\<close>

theorem decision_revocable_witness:
  "decision_flag (check_decision (fold_messages [0, 0, 0, 0, 0]
      (demo_robot\<lparr>min_swarm_count := 4\<rparr>))) = 1 \<and>
   min_swarm_count (recvSample (check_decision (fold_messages [0, 0, 0, 0, 0]
      (demo_robot\<lparr>min_swarm_count := 4\<rparr>))) 1) \<le> 6 \<and>
   beta_cdf (1 / 2) 2 6 = Some (15 / 16) \<and>
   decision_flag (check_decision (recvSample (check_decision (fold_messages [0, 0, 0, 0, 0]
      (demo_robot\<lparr>min_swarm_count := 4\<rparr>))) 1)) = - 1"
proof -
  define r1 where "r1 = check_decision (fold_messages [0, 0, 0, 0, 0]
      (demo_robot\<lparr>min_swarm_count := 4\<rparr>))"
  define r2 where "r2 = recvSample r1 1"
  have c1: "beta_cdf (1 / 2) 1 6 = Some (63 / 64)"
    by (simp add: beta_cdf_def sum.atLeast_Suc_lessThan eval_nat_numeral binomial_Suc_Suc)
  have c2: "beta_cdf (1 / 2) 2 6 = Some (15 / 16)"
    by (simp add: beta_cdf_def sum.atLeast_Suc_lessThan eval_nat_numeral binomial_Suc_Suc)
  have f1: "decision_flag r1 = 1"
    by (simp add: r1_def demo_robot_def SimpleRobot_init_def recvSample_as_update
        check_decision_def c1)
  have r2f: "alpha r2 = 2" "beta r2 = 6" "sends r2 + recvs r2 = 6" "min_swarm_count r2 = 4"
    "p_c r2 = 95 / 100"
    by (simp_all add: r2_def r1_def demo_robot_def SimpleRobot_init_def recvSample_as_update
        check_decision_frame)
  have "decision_flag (check_decision r2) = - 1"
    by (rule decision_revocable [of r2 "15 / 16"]) (simp_all add: r2f c2)
  then show ?thesis
    using f1 c2 r2f by (simp add: r1_def r2_def)
qed

text \<open>
  Claim C4. Draining is order-preserving and exactly-once. With the cursor within the
  queue, the drain loop folds exactly the entries from the cursor to the end of the queue
  whose sender is not the agent, first entry first, and sets the cursor to the length of
  the queue; the entries of a later, longer queue that the next drain folds are exactly
  those after that point, so the two drains together fold each peer entry once. After
  the whole step the receipt counter has grown by the number of folded entries, the cursor
  equals the length the queue had when the step began, has not decreased, and does not
  exceed the length of the queue after the step, which has only grown at its end. Outside
  the broadcast state, where the agent also folds its own bit, alpha and beta after the
  step are those the drain left.
\<close>

theorem drain_order_preserving_exactly_once:
  assumes "last_msg_index r \<le> length q"
  shows "drain r q = (fold_messages (peer_messages r q) r)\<lparr>last_msg_index := length q\<rparr> \<and>
         peer_messages r (q @ q2) = peer_messages r q @ peer_messages (drain r q) (q @ q2) \<and>
         recvs (fst (final (update r q dt d))) = recvs r + int (length (peer_messages r q)) \<and>
         last_msg_index (fst (final (update r q dt d))) = length q \<and>
         last_msg_index r \<le> last_msg_index (fst (final (update r q dt d))) \<and>
         last_msg_index (fst (final (update r q dt d))) \<le> length (snd (final (update r q dt d))) \<and>
         take (length q) (snd (final (update r q dt d))) = q \<and>
         (state r \<noteq> SEND_SAMPLE \<longrightarrow>
            alpha (fst (final (update r q dt d))) = alpha (drain r q) \<and>
            beta (fst (final (update r q dt d))) = beta (drain r q))"
proof -
  have mx: "max (last_msg_index r) (length q) = length q"
    using assms by simp
  have len: "length q \<le> length (snd (final (update r q dt d)))"
  proof -
    have "length (take (length q) (snd (final (update r q dt d)))) = length q"
      by (simp only: update_queue_grows)
    then show ?thesis
      by simp
  qed
  show ?thesis
    using assms len
    by (simp add: drain_as_fold mx update_cursor update_recvs update_queue_grows
        peer_messages_append [OF assms] update_belief_no_broadcast)
qed

theorem drain_order_preserving_exactly_once_witness:
  "last_msg_index demo_robot \<le> length [(Some 1, 1 :: int), (Some 0, 0), (Some 2, 0)] \<and>
   peer_messages demo_robot [(Some 1, 1), (Some 0, 0), (Some 2, 0)] = [1, 0] \<and>
   alpha (drain demo_robot [(Some 1, 1), (Some 0, 0), (Some 2, 0)]) = 2 \<and>
   beta (drain demo_robot [(Some 1, 1), (Some 0, 0), (Some 2, 0)]) = 2 \<and>
   recvs (fst (final (update demo_robot [(Some 1, 1), (Some 0, 0), (Some 2, 0)]
      (1 / 10) demo_draws))) = 2 \<and>
   last_msg_index (fst (final (update demo_robot [(Some 1, 1), (Some 0, 0), (Some 2, 0)]
      (1 / 10) demo_draws))) = 3"
  using drain_order_preserving_exactly_once
    [of demo_robot "[(Some 1, 1), (Some 0, 0), (Some 2, 0)]" "[]" "1 / 10" demo_draws]
  by (simp add: peer_messages_def demo_robot_def SimpleRobot_init_def recvSample_as_update)

text \<open>
  Claim C5. Movement never leaves the unit square: if the position lies in
  [0,1] x [0,1] before a step, it does after the step, in every state and for every
  elapsed time and every draw. In the random-walk state the new position is the first
  candidate inside the square among at most 8 attempts (the current heading, then newly
  drawn headings), and the old position when none of them is inside; in every other state
  the position is unchanged.
\<close>

theorem position_stays_in_unit_square:
  assumes "0 \<le> x r \<and> x r \<le> 1 \<and> 0 \<le> y r \<and> y r \<le> 1"
  shows "0 \<le> x (fst (final (update r q dt d))) \<and> x (fst (final (update r q dt d))) \<le> 1 \<and>
         0 \<le> y (fst (final (update r q dt d))) \<and> y (fst (final (update r q dt d))) \<le> 1 \<and>
         (x (fst (final (update r q dt d))), y (fst (final (update r q dt d)))) =
           (if state r = RANDOM_WALK
            then (case first_valid_attempt r d of
                    None \<Rightarrow> (x r, y r)
                  | Some k \<Rightarrow> candidate r d k)
            else (x r, y r))"
proof -
  have "in_arena (x r, y r)"
    using assms by (simp add: in_arena_def)
  then have "in_arena (if state r = RANDOM_WALK
            then (case first_valid_attempt r d of
                    None \<Rightarrow> (x r, y r)
                  | Some k \<Rightarrow> candidate r d k)
            else (x r, y r))"
    by (auto split: option.split dest: first_valid_attempt_in_arena)
  then have "in_arena (x (fst (final (update r q dt d))), y (fst (final (update r q dt d))))"
    by (simp only: update_position)
  then have "0 \<le> x (fst (final (update r q dt d))) \<and> x (fst (final (update r q dt d))) \<le> 1 \<and>
         0 \<le> y (fst (final (update r q dt d))) \<and> y (fst (final (update r q dt d))) \<le> 1"
    by (simp add: in_arena_def)
  with update_position [of r q dt d] show ?thesis
    by blast
qed

text \<open>
  Two instances: from (0.5, 0.25) with heading 0 and step length 0.05 the agent moves to
  (0.55, 0.25); from the corner (0, 0) with every heading equal to pi all 8 candidates lie
  outside and the agent stays at (0, 0).
\<close>

theorem position_stays_in_unit_square_witness:
  "(0 \<le> x demo_robot \<and> x demo_robot \<le> 1 \<and> 0 \<le> y demo_robot \<and> y demo_robot \<le> 1) \<and>
   x (fst (final (update demo_robot [] (1 / 10) demo_draws))) = 55 / 100 \<and>
   y (fst (final (update demo_robot [] (1 / 10) demo_draws))) = 1 / 4 \<and>
   first_valid_attempt (demo_robot\<lparr>x := 0, y := 0, direction := pi\<rparr>)
     (demo_draws\<lparr>uniform_angle := (\<lambda>k. pi)\<rparr>) = None \<and>
   x (fst (final (update (demo_robot\<lparr>x := 0, y := 0, direction := pi\<rparr>) [] (1 / 10)
     (demo_draws\<lparr>uniform_angle := (\<lambda>k. pi)\<rparr>)))) = 0 \<and>
   y (fst (final (update (demo_robot\<lparr>x := 0, y := 0, direction := pi\<rparr>) [] (1 / 10)
     (demo_draws\<lparr>uniform_angle := (\<lambda>k. pi)\<rparr>)))) = 0"
proof -
  have none: "first_valid_attempt (demo_robot\<lparr>x := 0, y := 0, direction := pi\<rparr>)
     (demo_draws\<lparr>uniform_angle := (\<lambda>k. pi)\<rparr>) = None"
    by (simp add: first_valid_attempt_def find_None_iff in_arena_def candidate_def
        step_length_def heading_at_def clip_def demo_robot_def demo_draws_def SimpleRobot_init_def)
  show ?thesis
    using position_stays_in_unit_square [of demo_robot "[]" "1 / 10" demo_draws]
      position_stays_in_unit_square [of "demo_robot\<lparr>x := 0, y := 0, direction := pi\<rparr>" "[]"
        "1 / 10" "demo_draws\<lparr>uniform_angle := (\<lambda>k. pi)\<rparr>"]
      first_valid_attempt_0 [OF in_arena_demo] cand_demo none
    by (simp add: demo_robot_def SimpleRobot_init_def)
qed

text \<open>
  Claim C6. Each fold adds 1 to alpha when the bit is 1 and 1 to beta otherwise, and 1 to
  the counter of its kind. Hence after any history of broadcasts and receipts from the
  constructed agent (alpha = 1, beta = 1), alpha - 1 is the number of bits equal to 1,
  beta - 1 the number of the others, (alpha - 1) + (beta - 1) equals sends + recvs, which
  is the number of folds, and alpha and beta are at least 1. The same invariant holds of
  the constructed agent and is kept by every call of the step function.
\<close>

theorem belief_counts_folded_updates:
  "alpha (recvSample r m) = alpha r + (if m = 1 then 1 else 0) \<and>
   beta (recvSample r m) = beta r + (if m = 1 then 0 else 1) \<and>
   recvs (recvSample r m) = recvs r + 1 \<and>
   alpha (fst (sendSample r m q)) = alpha r + (if m = 1 then 1 else 0) \<and>
   beta (fst (sendSample r m q)) = beta r + (if m = 1 then 0 else 1) \<and>
   sends (fst (sendSample r m q)) = sends r + 1 \<and>
   (let r' = fst (foldl apply_event (SimpleRobot_init px py e rid a, q) es)
    in alpha r' = 1 + int (length (filter (\<lambda>ev. event_bit ev = 1) es)) \<and>
       beta r' = 1 + int (length (filter (\<lambda>ev. event_bit ev \<noteq> 1) es)) \<and>
       (alpha r' - 1) + (beta r' - 1) = sends r' + recvs r' \<and>
       sends r' + recvs r' = int (length es) \<and>
       1 \<le> alpha r' \<and> 1 \<le> beta r') \<and>
   belief_invariant (SimpleRobot_init px py e rid a) \<and>
   (belief_invariant r \<longrightarrow> belief_invariant (fst (final (update r q dt d))))"
proof -
  have len: "length (filter (\<lambda>ev. event_bit ev = 1) es) + length (filter (\<lambda>ev. event_bit ev \<noteq> 1) es)
               = length es"
    by (rule sum_length_filter_compl)
  have init: "alpha (SimpleRobot_init px py e rid a) = 1" "beta (SimpleRobot_init px py e rid a) = 1"
    "sends (SimpleRobot_init px py e rid a) = 0" "recvs (SimpleRobot_init px py e rid a) = 0"
    by (simp_all add: SimpleRobot_init_def)
  have history: "let r' = fst (foldl apply_event (SimpleRobot_init px py e rid a, q) es)
    in alpha r' = 1 + int (length (filter (\<lambda>ev. event_bit ev = 1) es)) \<and>
       beta r' = 1 + int (length (filter (\<lambda>ev. event_bit ev \<noteq> 1) es)) \<and>
       (alpha r' - 1) + (beta r' - 1) = sends r' + recvs r' \<and>
       sends r' + recvs r' = int (length es) \<and>
       1 \<le> alpha r' \<and> 1 \<le> beta r'"
    using foldl_apply_event_fields [of "SimpleRobot_init px py e rid a" q es] len
    by (simp add: Let_def init)
  have start: "belief_invariant (SimpleRobot_init px py e rid a)"
    by (simp add: belief_invariant_def init)
  show ?thesis
    using history start update_belief_invariant [of r q dt d]
    by (simp add: recvSample_as_update sendSample_belief)
qed

text \<open>
  The instance: the constructed agent in its broadcast state, with two peer entries and
  one entry of its own waiting in the queue, ends the step with alpha = 2, beta = 3,
  sends = 1 and recvs = 2.
\<close>

theorem belief_counts_folded_updates_witness:
  "belief_invariant (demo_robot\<lparr>state := SEND_SAMPLE\<rparr>) \<and>
   belief_invariant (fst (final (update (demo_robot\<lparr>state := SEND_SAMPLE\<rparr>)
      [(Some 1, 1), (Some 0, 1), (Some 2, 0)] (1 / 10) demo_draws))) \<and>
   alpha (fst (final (update (demo_robot\<lparr>state := SEND_SAMPLE\<rparr>)
      [(Some 1, 1), (Some 0, 1), (Some 2, 0)] (1 / 10) demo_draws))) = 2 \<and>
   beta (fst (final (update (demo_robot\<lparr>state := SEND_SAMPLE\<rparr>)
      [(Some 1, 1), (Some 0, 1), (Some 2, 0)] (1 / 10) demo_draws))) = 3 \<and>
   sends (fst (final (update (demo_robot\<lparr>state := SEND_SAMPLE\<rparr>)
      [(Some 1, 1), (Some 0, 1), (Some 2, 0)] (1 / 10) demo_draws))) = 1 \<and>
   recvs (fst (final (update (demo_robot\<lparr>state := SEND_SAMPLE\<rparr>)
      [(Some 1, 1), (Some 0, 1), (Some 2, 0)] (1 / 10) demo_draws))) = 2"
  using belief_counts_folded_updates
    [of "demo_robot\<lparr>state := SEND_SAMPLE\<rparr>" 0 "[(Some 1, 1), (Some 0, 1), (Some 2, 0)]"
        0 0 None None 0 "[]" "1 / 10" demo_draws]
  by (simp add: belief_invariant_def demo_robot_def SimpleRobot_init_def update_def Let_def
      drain_as_update peer_messages_def check_decision_def calculateMessage_def
      sendSample_def)



text \<open>
  Claim C8, as amended. Construction has no validation and no configuration error of its
  own. For every negative grid size the environment constructor still raises, an
  exception of its library calls, and yields no instance. For the grid size 0 it raises
  nothing: it returns an environment with an empty grid, and the size shows only later,
  when any observation on that environment raises \<^verbatim>\<open>IndexError\<close>. The agent
  constructor takes no interval, duration, strategy or threshold, so it can refuse none:
  it always returns an agent with interval 0.2, heading-change duration 5, strategy
  POSITIVE and threshold 0.95.
\<close>

theorem construction_validates_nothing:
  "(g < 0 \<longrightarrow> isl (SimpleEnvironment_init pf g vs)) \<and>
   \<not> isl (SimpleEnvironment_init pf 0 []) \<and>
   grid_size (projr (SimpleEnvironment_init pf 0 [])) = 0 \<and>
   (env r = Some (projr (SimpleEnvironment_init pf 0 [])) \<longrightarrow>
      getObservation r d = Inl IndexError) \<and>
   tau (SimpleRobot_init px py e rid a) = 2 / 10 \<and>
   random_walk_duration (SimpleRobot_init px py e rid a) = 5 \<and>
   feedback_strategy (SimpleRobot_init px py e rid a) = POSITIVE \<and>
   p_c (SimpleRobot_init px py e rid a) = 95 / 100"
proof -
  have neg: "isl (SimpleEnvironment_init pf g vs)" if "g < 0"
    using that by (simp add: SimpleEnvironment_init_def Let_def np_zeros_def)
  have zero: "SimpleEnvironment_init pf 0 [] = Inr \<lparr> grid_size = 0, grid = (\<lambda>i j. False) \<rparr>"
    by (simp add: SimpleEnvironment_init_def Let_def np_zeros_def int_to_float_overflows_def)
  have obs: "getObservation r d = Inl IndexError"
    if "env r = Some (projr (SimpleEnvironment_init pf 0 []))"
    using that by (simp add: zero getObservation_def Let_def np_index_def py_int_def)
  show ?thesis
    using neg obs by (simp add: zero SimpleRobot_init_def)
qed

theorem construction_validates_nothing_witness:
  "(- 1 :: int) < 0 \<and>
   SimpleEnvironment_init demo_platform (- 1) [] = Inl ValueError \<and>
   env (demo_robot\<lparr>env := Some (projr (SimpleEnvironment_init demo_platform 0 []))\<rparr>)
     = Some (projr (SimpleEnvironment_init demo_platform 0 [])) \<and>
   getObservation (demo_robot\<lparr>env := Some (projr (SimpleEnvironment_init demo_platform 0 []))\<rparr>)
     demo_draws = Inl IndexError"
  using construction_validates_nothing
    [of "- 1" demo_platform "[]"
        "demo_robot\<lparr>env := Some (projr (SimpleEnvironment_init demo_platform 0 []))\<rparr>" demo_draws]
  by (simp add: SimpleEnvironment_init_def Let_def np_zeros_def int_to_float_overflows_def
      demo_platform_def)

text \<open>
  The claim as stated fails for the grid size 0, which is not positive: the constructor
  raises nothing and returns an environment.
\<close>

theorem zero_grid_size_constructs:
  "\<not> isl (SimpleEnvironment_init demo_platform 0 []) \<and>
   grid_size (projr (SimpleEnvironment_init demo_platform 0 [])) = 0"
  by (simp add: SimpleEnvironment_init_def Let_def np_zeros_def int_to_float_overflows_def
      demo_platform_def)

text \<open>
  Claim C9. The claim says that a step in the random-walk state with no reset adds the
  elapsed time to the observation timer exactly once. The code adds it in
  \<^verbatim>\<open>update\<close> (line 210) and again in \<^verbatim>\<open>performMovement\<close> (line 111) when the
  move is made: from timer 0 with interval 0.2, a step of 0.05 that moves the agent to
  (0.55, 0.25) leaves the timer at 0.1, twice the elapsed time, and the agent in the
  random-walk state, so no reset has fired.
\<close>

theorem explore_step_adds_elapsed_time_twice:
  "state demo_robot = RANDOM_WALK \<and> timer demo_robot = 0 \<and> tau demo_robot = 2 / 10 \<and>
   x (fst (final (update demo_robot [] (1 / 20) demo_draws))) = 55 / 100 \<and>
   timer (fst (final (update demo_robot [] (1 / 20) demo_draws))) = 2 * (1 / 20) \<and>
   state (fst (final (update demo_robot [] (1 / 20) demo_draws))) = RANDOM_WALK"
proof -
  have st: "state demo_robot = RANDOM_WALK" and t0: "timer demo_robot = 0"
    and ta: "tau demo_robot = 2 / 10"
    by (simp_all add: demo_robot_def SimpleRobot_init_def)
  have fv: "first_valid_attempt demo_robot demo_draws = Some 0"
    by (rule first_valid_attempt_0 [OF in_arena_demo])
  have px: "x (fst (final (update demo_robot [] (1 / 20) demo_draws))) = 55 / 100"
    using update_position [of demo_robot "[]" "1 / 20" demo_draws]
    by (simp add: st fv cand_demo)
  show ?thesis
    by (simp add: update_timer_random_walk [OF st] update_state_random_walk [OF st] fv st t0 ta px)
qed

text \<open>
  Claim C10. A step moves the agent only in the random-walk state: in the observe,
  broadcast, avoidance and reset states the position after the step is the position
  before it, whether the step returns or raises.
\<close>

theorem step_moves_only_in_random_walk:
  assumes "state r \<in> {GET_OBSERVATION, SEND_SAMPLE, COLLISION_AVOIDANCE, RESET}"
  shows "x (fst (final (update r q dt d))) = x r \<and> y (fst (final (update r q dt d))) = y r"
proof -
  have "state r \<noteq> RANDOM_WALK"
    using assms by auto
  with update_position [of r q dt d] show ?thesis
    by simp
qed

theorem step_moves_only_in_random_walk_witness:
  "state (demo_robot\<lparr>state := SEND_SAMPLE\<rparr>)
     \<in> {GET_OBSERVATION, SEND_SAMPLE, COLLISION_AVOIDANCE, RESET} \<and>
   x (fst (final (update (demo_robot\<lparr>state := SEND_SAMPLE\<rparr>) [] (1 / 10) demo_draws))) = 1 / 2 \<and>
   y (fst (final (update (demo_robot\<lparr>state := SEND_SAMPLE\<rparr>) [] (1 / 10) demo_draws))) = 1 / 4"
  using step_moves_only_in_random_walk [of "demo_robot\<lparr>state := SEND_SAMPLE\<rparr>" "[]" "1 / 10" demo_draws]
  by (simp add: demo_robot_def SimpleRobot_init_def)

end
